theory Spec2Isabelle
  imports Complex_Main "HOL-Library.Word"
begin

section \<open>Investment calculator: projection engine and scenario controller\<close>

text \<open>
  The component \<open>Home\<close> computes a month-by-month compounding projection from an
  \<open>InvestmentInputs\<close> value and keeps a list of saved scenarios, either in the browser's
  local storage (guest mode) or behind the \<open>/api/scenarios\<close> routes (signed-in mode).

  JavaScript numbers are modelled as \<open>real\<close>: every finite double is a real, the
  arithmetic is carried out without rounding, and \<open>NaN\<close> is the value \<open>None\<close> of
  a \<open>real option\<close> where the code tests for it. JavaScript strings are lists of UTF-16
  code units.

  The theorems about the projection concern the structure of the computation: which
  operations run, in which order and under which guards. None of them asserts an order
  between computed balances, which in the code depends on the rounding of doubles.
\<close>

subsection \<open>Strings\<close>

type_synonym jsstring = "16 word list"

definition js :: "string \<Rightarrow> jsstring" where
  "js s = map (\<lambda>c. of_nat (of_char c)) s"

text \<open>The code units that \<open>String.prototype.trim\<close> strips: white space and line terminators.\<close>

definition isWhiteSpace :: "16 word \<Rightarrow> bool" where
  "isWhiteSpace c =
     (c = 0x0009 \<or> c = 0x000A \<or> c = 0x000B \<or> c = 0x000C \<or> c = 0x000D \<or> c = 0x0020
      \<or> c = 0x00A0 \<or> c = 0x1680 \<or> (0x2000 \<le> c \<and> c \<le> 0x200A) \<or> c = 0x2028
      \<or> c = 0x2029 \<or> c = 0x202F \<or> c = 0x205F \<or> c = 0x3000 \<or> c = 0xFEFF)"

definition trim :: "jsstring \<Rightarrow> jsstring" where
  "trim s = rev (dropWhile isWhiteSpace (rev (dropWhile isWhiteSpace s)))"

subsection \<open>Data model\<close>

datatype ContributionFrequency = annual | monthly

text \<open>
  The values that the slots of an \<open>InvestmentInputs\<close> object hold. \<open>handleInputChange\<close>
  accepts every key of \<open>InvestmentInputs\<close> and stores a number under it, so at run time
  the slot \<open>contributionFrequency\<close> holds either one of the two frequencies or a number;
  the other five slots only ever receive numbers.
\<close>

datatype slot_value = FrequencyValue ContributionFrequency | NumberValue real

record InvestmentInputs =
  startingAmount :: real
  contributionAmount :: real
  contributionFrequency :: slot_value
  annualGrowthRate :: real
  inflationRate :: real
  yearsToGrow :: real

record YearlySnapshot =
  year :: nat
  contribution :: real
  growth :: real
  balance :: real
  totalContributions :: real
  realBalance :: real

record Scenario =
  scenario_id :: jsstring
  name :: jsstring
  createdAt :: jsstring
  inputs :: InvestmentInputs

definition defaultInputs :: InvestmentInputs where
  "defaultInputs =
     \<lparr>startingAmount = 10000, contributionAmount = 500,
      contributionFrequency = FrequencyValue monthly, annualGrowthRate = 8,
      inflationRate = 5 / 2, yearsToGrow = 20\<rparr>"

subsection \<open>The projection (\<open>summary\<close>)\<close>

text \<open>
  The variables of the \<open>useMemo\<close> callback. \<open>contributionThisYear\<close> and
  \<open>growthThisYear\<close> are declared afresh in every year; the year's body resets them.
\<close>

record locals =
  rows :: "YearlySnapshot list"
  balance :: real
  totalContributions :: real
  inflationFactor :: real
  contributionThisYear :: real
  growthThisYear :: real

definition monthlyGrowthRate :: "InvestmentInputs \<Rightarrow> real" where
  "monthlyGrowthRate i = annualGrowthRate i / 100 / 12"

definition monthlyInflationRate :: "InvestmentInputs \<Rightarrow> real" where
  "monthlyInflationRate i = inflationRate i / 100 / 12"

definition month_contribution :: "InvestmentInputs \<Rightarrow> nat \<Rightarrow> real" where
  "month_contribution i month =
     (if contributionFrequency i = FrequencyValue monthly then contributionAmount i
      else if month = 1 then contributionAmount i
      else 0)"

definition month_body :: "InvestmentInputs \<Rightarrow> nat \<Rightarrow> locals \<Rightarrow> locals" where
  "month_body i month s =
     (let contribution = month_contribution i month;
          s1 = (if contribution > 0
                then s\<lparr>locals.balance := locals.balance s + contribution,
                       contributionThisYear := contributionThisYear s + contribution,
                       locals.totalContributions := locals.totalContributions s + contribution\<rparr>
                else s);
          growth = locals.balance s1 * monthlyGrowthRate i;
          s2 = s1\<lparr>locals.balance := locals.balance s1 + growth,
                   growthThisYear := growthThisYear s1 + growth\<rparr>
      in if monthlyInflationRate i > 0
         then s2\<lparr>inflationFactor := inflationFactor s2 * (1 + monthlyInflationRate i)\<rparr>
         else s2)"

function month_loop :: "InvestmentInputs \<Rightarrow> nat \<Rightarrow> locals \<Rightarrow> locals" where
  "month_loop i month s =
     (if month \<le> 12 then month_loop i (month + 1) (month_body i month s) else s)"
  by pat_completeness auto
termination
  by (relation "measure (\<lambda>(i, month, s). 13 - month)") auto

text \<open>The twelve months of a year in one piece, and the amount a month really adds.\<close>

definition twelve_months :: "InvestmentInputs \<Rightarrow> locals \<Rightarrow> locals" where
  "twelve_months i s = fold (month_body i) [1..<13] s"

definition added :: "InvestmentInputs \<Rightarrow> nat \<Rightarrow> real" where
  "added i month = (if month_contribution i month > 0 then month_contribution i month else 0)"

definition year_body :: "InvestmentInputs \<Rightarrow> nat \<Rightarrow> locals \<Rightarrow> locals" where
  "year_body i yr s =
     (let s1 = month_loop i 1 (s\<lparr>contributionThisYear := 0, growthThisYear := 0\<rparr>)
      in s1\<lparr>rows := rows s1 @
            [\<lparr>year = yr,
              contribution = contributionThisYear s1,
              growth = growthThisYear s1,
              balance = locals.balance s1,
              totalContributions = locals.totalContributions s1,
              realBalance = locals.balance s1 / inflationFactor s1\<rparr>]\<rparr>)"

text \<open>
  The counter \<open>year\<close> starts at 1 and is incremented by 1, so it is a natural number;
  the bound \<open>yearsToGrow\<close> is any number.
\<close>

function year_loop :: "InvestmentInputs \<Rightarrow> nat \<Rightarrow> locals \<Rightarrow> locals" where
  "year_loop i yr s =
     (if real yr \<le> yearsToGrow i then year_loop i (yr + 1) (year_body i yr s) else s)"
  by pat_completeness auto
termination
proof (relation "measure (\<lambda>(i, yr, s). nat \<lceil>yearsToGrow i\<rceil> + 1 - yr)")
  show "wf (measure (\<lambda>(i, yr, s). nat \<lceil>yearsToGrow i\<rceil> + 1 - yr))"
    by simp
next
  fix i :: InvestmentInputs and yr :: nat and s :: locals
  assume "real yr \<le> yearsToGrow i"
  then have "yr \<le> nat \<lceil>yearsToGrow i\<rceil>"
    by linarith
  then show "((i, yr + 1, year_body i yr s), (i, yr, s))
      \<in> measure (\<lambda>(i, yr, s). nat \<lceil>yearsToGrow i\<rceil> + 1 - yr)"
    by simp
qed

definition initial_locals :: "InvestmentInputs \<Rightarrow> locals" where
  "initial_locals i =
     \<lparr>rows = [], balance = startingAmount i, totalContributions = startingAmount i,
      inflationFactor = 1, contributionThisYear = 0, growthThisYear = 0\<rparr>"

text \<open>\<open>rows.at(-1)\<close>: the last element, or \<open>undefined\<close> (here \<open>None\<close>) on an empty array.\<close>

definition at_last :: "'a list \<Rightarrow> 'a option" where
  "at_last xs = (if xs = [] then None else Some (last xs))"

record Summary =
  rows :: "YearlySnapshot list"
  finalBalance :: real
  finalRealBalance :: real
  totalContributions :: real
  totalGrowth :: real

definition summary :: "InvestmentInputs \<Rightarrow> Summary" where
  "summary i =
     (let s = year_loop i 1 (initial_locals i);
          fb = (case at_last (locals.rows s) of
                  None \<Rightarrow> startingAmount i
                | Some r \<Rightarrow> YearlySnapshot.balance r);
          frb = (case at_last (locals.rows s) of
                   None \<Rightarrow> fb
                 | Some r \<Rightarrow> realBalance r)
      in \<lparr>rows = locals.rows s,
          finalBalance = fb,
          finalRealBalance = frb,
          totalContributions = locals.totalContributions s,
          totalGrowth = fb - locals.totalContributions s\<rparr>)"


subsection \<open>The projection as the specification words it\<close>

text \<open>
  The specification's monthly step, written from its words: the contribution of the month
  (the full amount every month when monthly, the full amount in month 1 only when annual)
  is added first, then the growth of the month, the new balance times
  \<open>annualGrowthRate / 100 / 12\<close>, is added.
\<close>

definition spec_contribution :: "ContributionFrequency \<Rightarrow> real \<Rightarrow> nat \<Rightarrow> real" where
  "spec_contribution f amount month =
     (case f of monthly \<Rightarrow> amount | annual \<Rightarrow> (if month = 1 then amount else 0))"

definition spec_month_growth ::
    "InvestmentInputs \<Rightarrow> ContributionFrequency \<Rightarrow> nat \<Rightarrow> real \<Rightarrow> real" where
  "spec_month_growth i f month b =
     (b + spec_contribution f (contributionAmount i) month) * (annualGrowthRate i / 100 / 12)"

definition spec_month_balance ::
    "InvestmentInputs \<Rightarrow> ContributionFrequency \<Rightarrow> nat \<Rightarrow> real \<Rightarrow> real" where
  "spec_month_balance i f month b =
     b + spec_contribution f (contributionAmount i) month + spec_month_growth i f month b"

text \<open>
  The specification's inflation factor after a number of months: it starts at 1 and is
  multiplied by \<open>1 + inflationRate / 100 / 12\<close> in each month in which that rate is
  strictly positive.
\<close>

fun spec_inflationFactor :: "InvestmentInputs \<Rightarrow> nat \<Rightarrow> real" where
  "spec_inflationFactor i 0 = 1"
| "spec_inflationFactor i (Suc m) =
     (if inflationRate i / 100 / 12 > 0
      then spec_inflationFactor i m * (1 + inflationRate i / 100 / 12)
      else spec_inflationFactor i m)"

subsection \<open>Controller state\<close>

datatype session_status = loading | authenticated | unauthenticated

record User =
  user_id :: "jsstring option"
  email :: "jsstring option"

text \<open>
  The state of the component, together with the two things around it that the handlers
  read and write: the session and \<open>window.localStorage\<close>.
\<close>

record Home =
  inputs :: InvestmentInputs
  status :: session_status
  session_user :: "User option"
  scenarios :: "Scenario list"
  storageReady :: bool
  isLoadingScenarios :: bool
  scenarioError :: "jsstring option"
  scenarioLoadError :: "jsstring option"
  isSavingScenario :: bool
  localStorage :: "jsstring \<rightharpoonup> jsstring"

text \<open>A string is truthy when it is not empty.\<close>

definition truthy :: "jsstring option \<Rightarrow> bool" where
  "truthy v = (case v of None \<Rightarrow> False | Some x \<Rightarrow> x \<noteq> [])"

definition isAuthenticated :: "Home \<Rightarrow> bool" where
  "isAuthenticated st =
     (status st = authenticated \<and>
      (case session_user st of None \<Rightarrow> False | Some u \<Rightarrow> truthy (user_id u)))"

definition storageKey :: "Home \<Rightarrow> jsstring" where
  "storageKey st =
     (case session_user st of
        None \<Rightarrow> js ''scenarios_guest''
      | Some u \<Rightarrow> (if truthy (email u) then js ''scenarios_'' @ the (email u)
                   else js ''scenarios_guest''))"

definition canSaveScenario :: "Home \<Rightarrow> bool" where
  "canSaveScenario st =
     (if isAuthenticated st then \<not> isSavingScenario st
      else storageReady st \<and> \<not> isSavingScenario st)"

text \<open>
  What a handler takes from its surroundings when it runs: whether \<open>window\<close> exists, the
  answers of \<open>window.prompt\<close> (\<open>None\<close> is \<open>null\<close>) and \<open>window.confirm\<close>, the
  result of \<open>crypto.randomUUID()\<close> (\<open>None\<close> when \<open>crypto\<close> has no such method), the
  text of \<open>Date.now()\<close>, the text of \<open>new Date().toISOString()\<close>, and
  \<open>JSON.stringify\<close> on scenario lists.
\<close>

record env =
  window :: bool
  prompt :: "jsstring option"
  confirm :: bool
  randomUUID :: "jsstring option"
  Date_now :: jsstring
  toISOString :: jsstring
  JSON_stringify :: "Scenario list \<Rightarrow> jsstring"

datatype request = POST_scenarios jsstring InvestmentInputs | DELETE_scenario jsstring

text \<open>
  A response of \<open>fetch\<close>: its status and what \<open>response.json()\<close> yields (\<open>None\<close>
  when that promise rejects). A rejected \<open>fetch\<close> is \<open>None\<close> of \<open>response option\<close>.
\<close>

record response =
  http_status :: nat
  json :: "Scenario option"

definition ok :: "response \<Rightarrow> bool" where
  "ok r = (200 \<le> http_status r \<and> http_status r \<le> 299)"

text \<open>A settled \<open>fetch\<close> counts as a success only with a 200-class response.\<close>

definition confirmed_success :: "response option \<Rightarrow> bool" where
  "confirmed_success res = (case res of None \<Rightarrow> False | Some r \<Rightarrow> ok r)"

subsection \<open>The local-storage write effect\<close>

definition storage_write_effect :: "env \<Rightarrow> Home \<Rightarrow> Home" where
  "storage_write_effect e st =
     (if isAuthenticated st \<or> \<not> storageReady st \<or> \<not> window e then st
      else st\<lparr>localStorage :=
             (localStorage st)(storageKey st \<mapsto> JSON_stringify e (scenarios st))\<rparr>)"

subsection \<open>Input changes\<close>

datatype key =
  K_startingAmount | K_contributionAmount | K_contributionFrequency
  | K_annualGrowthRate | K_inflationRate | K_yearsToGrow

text \<open>\<open>prev[field]\<close>: the value stored under a key.\<close>

fun field_value :: "key \<Rightarrow> InvestmentInputs \<Rightarrow> slot_value" where
  "field_value K_startingAmount prev = NumberValue (startingAmount prev)"
| "field_value K_contributionAmount prev = NumberValue (contributionAmount prev)"
| "field_value K_contributionFrequency prev = contributionFrequency prev"
| "field_value K_annualGrowthRate prev = NumberValue (annualGrowthRate prev)"
| "field_value K_inflationRate prev = NumberValue (inflationRate prev)"
| "field_value K_yearsToGrow prev = NumberValue (yearsToGrow prev)"

text \<open>
  \<open>Number\<close> is the conversion of a string to a number, \<open>None\<close> standing for
  \<open>NaN\<close>. For \<open>NaN\<close> the new object stores \<open>prev[field]\<close> under \<open>field\<close>, which
  is \<open>prev\<close> again.
\<close>

definition handleInputChange ::
    "(jsstring \<Rightarrow> real option) \<Rightarrow> key \<Rightarrow> jsstring \<Rightarrow> Home \<Rightarrow> Home" where
  "handleInputChange Number field v st =
     (let numericValue = Number v; prev = Home.inputs st
      in st\<lparr>Home.inputs :=
           (case numericValue of
              None \<Rightarrow> prev
            | Some n \<Rightarrow>
                (case field of
                   K_startingAmount \<Rightarrow> prev\<lparr>startingAmount := n\<rparr>
                 | K_contributionAmount \<Rightarrow> prev\<lparr>contributionAmount := n\<rparr>
                 | K_contributionFrequency \<Rightarrow> prev\<lparr>contributionFrequency := NumberValue n\<rparr>
                 | K_annualGrowthRate \<Rightarrow> prev\<lparr>annualGrowthRate := n\<rparr>
                 | K_inflationRate \<Rightarrow> prev\<lparr>inflationRate := n\<rparr>
                 | K_yearsToGrow \<Rightarrow> prev\<lparr>yearsToGrow := n\<rparr>))\<rparr>)"

definition handleFrequencyChange :: "ContributionFrequency \<Rightarrow> Home \<Rightarrow> Home" where
  "handleFrequencyChange v st =
     st\<lparr>Home.inputs := (Home.inputs st)\<lparr>contributionFrequency := FrequencyValue v\<rparr>\<rparr>"

subsection \<open>Saving a scenario\<close>

definition save_error :: jsstring where
  "save_error = js ''We couldn't save this scenario. Please try again in a moment.''"

definition delete_error :: jsstring where
  "delete_error = js ''Unable to delete this scenario right now.''"

definition new_id :: "env \<Rightarrow> jsstring" where
  "new_id e = (case randomUUID e of Some u \<Rightarrow> u | None \<Rightarrow> Date_now e)"

text \<open>
  \<open>handleSaveScenario\<close> up to its \<open>await\<close>: the new state and the request sent, if
  any. In guest mode there is no \<open>await\<close> and the handler is complete.
\<close>

definition handleSaveScenario :: "env \<Rightarrow> Home \<Rightarrow> Home \<times> request option" where
  "handleSaveScenario e st =
     (if \<not> window e then (st, None)
      else case prompt e of
        None \<Rightarrow> (st, None)
      | Some nm \<Rightarrow>
          if nm = [] then (st, None)
          else let trimmed = trim nm in
            if trimmed = [] then (st, None)
            else if isAuthenticated st
              then (st\<lparr>isSavingScenario := True, scenarioError := None\<rparr>,
                    Some (POST_scenarios trimmed (Home.inputs st)))
            else if \<not> storageReady st then (st, None)
            else
              let newScenario =
                    \<lparr>scenario_id = new_id e, name = trimmed,
                     createdAt = toISOString e, inputs = Home.inputs st\<rparr>
              in (st\<lparr>scenarios := take 10 (newScenario # scenarios st)\<rparr>, None))"

text \<open>The rest of \<open>handleSaveScenario\<close>, run when \<open>fetch\<close> settles.\<close>

definition handleSaveScenario_settled :: "response option \<Rightarrow> Home \<Rightarrow> Home" where
  "handleSaveScenario_settled res st =
     (let caught = st\<lparr>scenarioError := Some save_error\<rparr>;
          st1 = (case res of
                   None \<Rightarrow> caught
                 | Some r \<Rightarrow>
                     if \<not> ok r then caught
                     else (case json r of
                             None \<Rightarrow> caught
                           | Some savedScenario \<Rightarrow>
                               st\<lparr>scenarios := savedScenario # scenarios st\<rparr>))
      in st1\<lparr>isSavingScenario := False\<rparr>)"

text \<open>The save button is disabled unless \<open>canSaveScenario\<close>; a disabled button runs no handler.\<close>

definition save_button_click :: "env \<Rightarrow> Home \<Rightarrow> Home \<times> request option" where
  "save_button_click e st =
     (if canSaveScenario st then handleSaveScenario e st else (st, None))"

subsection \<open>Deleting a scenario\<close>

definition remove_id :: "jsstring \<Rightarrow> Scenario list \<Rightarrow> Scenario list" where
  "remove_id i prev = filter (\<lambda>scenario. scenario_id scenario \<noteq> i) prev"

definition handleDeleteScenario :: "env \<Rightarrow> jsstring \<Rightarrow> Home \<Rightarrow> Home \<times> request option" where
  "handleDeleteScenario e i st =
     (let confirmed = (if \<not> window e then True else confirm e)
      in if \<not> confirmed then (st, None)
         else if isAuthenticated st
           then (st\<lparr>scenarioError := None\<rparr>, Some (DELETE_scenario i))
         else (st\<lparr>scenarios := remove_id i (scenarios st)\<rparr>, None))"

definition handleDeleteScenario_settled :: "jsstring \<Rightarrow> response option \<Rightarrow> Home \<Rightarrow> Home" where
  "handleDeleteScenario_settled i res st =
     (let caught = st\<lparr>scenarioError := Some delete_error\<rparr>
      in case res of
           None \<Rightarrow> caught
         | Some r \<Rightarrow>
             if \<not> ok r then caught
             else st\<lparr>scenarios := remove_id i (scenarios st)\<rparr>)"


subsection \<open>Runs of the controller\<close>

text \<open>
  The events that reach the handlers above: a click on the save button, the settling of a
  save request, a confirmed click on a scenario's remove button and the settling of its
  request, a change of an input field or of the frequency, and a run of the write effect.
  A run starts from a state and a count of the save requests in flight; a save request
  can only settle when one is in flight.
\<close>

datatype event =
  SaveClick env
  | SaveSettled "response option"
  | DeleteClick env jsstring
  | DeleteSettled jsstring "response option"
  | InputChange key jsstring
  | FrequencyChange ContributionFrequency
  | WriteEffect env

fun step :: "(jsstring \<Rightarrow> real option) \<Rightarrow> event \<Rightarrow> Home \<times> nat \<Rightarrow> Home \<times> nat" where
  "step Number (SaveClick e) (st, n) =
     (case save_button_click e st of
        (st', None) \<Rightarrow> (st', n)
      | (st', Some rq) \<Rightarrow> (st', Suc n))"
| "step Number (SaveSettled res) (st, n) =
     (if n = 0 then (st, n) else (handleSaveScenario_settled res st, n - 1))"
| "step Number (DeleteClick e i) (st, n) = (fst (handleDeleteScenario e i st), n)"
| "step Number (DeleteSettled i res) (st, n) = (handleDeleteScenario_settled i res st, n)"
| "step Number (InputChange field v) (st, n) = (handleInputChange Number field v st, n)"
| "step Number (FrequencyChange v) (st, n) = (handleFrequencyChange v st, n)"
| "step Number (WriteEffect e) (st, n) = (storage_write_effect e st, n)"

definition run :: "(jsstring \<Rightarrow> real option) \<Rightarrow> event list \<Rightarrow> Home \<times> nat \<Rightarrow> Home \<times> nat" where
  "run Number evs c = fold (step Number) evs c"

subsection \<open>The route \<open>POST /api/scenarios\<close>\<close>

datatype json =
  JNull | JBool bool | JNumber real | JString jsstring
  | JArray "json list" | JObject "(jsstring \<times> json) list"

record ScenarioRow =
  row_id :: jsstring
  row_name :: jsstring
  row_inputs :: json
  userId :: jsstring
  row_createdAt :: jsstring

datatype api_response = unauthorized | badRequest | created ScenarioRow

fun status_of :: "api_response \<Rightarrow> nat" where
  "status_of unauthorized = 401"
| "status_of badRequest = 400"
| "status_of (created r) = 201"

text \<open>
  \<open>body.name\<close> and \<open>body.inputs\<close>: the property of an object (the last one when the
  text repeats a key), \<open>undefined\<close> (here \<open>None\<close>) when the object lacks it or the
  body is no object.
\<close>

definition property :: "json \<Rightarrow> jsstring \<Rightarrow> json option" where
  "property v k = (case v of JObject kvs \<Rightarrow> map_of (rev kvs) k | _ \<Rightarrow> None)"

definition falsy :: "json \<Rightarrow> bool" where
  "falsy v = (v = JNull \<or> v = JBool False \<or> v = JNumber 0 \<or> v = JString [])"

definition typeof_object :: "json option \<Rightarrow> bool" where
  "typeof_object v =
     (case v of
        Some JNull \<Rightarrow> True | Some (JArray xs) \<Rightarrow> True | Some (JObject kvs) \<Rightarrow> True
      | _ \<Rightarrow> False)"

text \<open>
  The handler, given the id of the session's user, the parsed body (\<open>None\<close> when
  \<open>request.json()\<close> rejects, which the handler turns into \<open>null\<close>), the id and the
  time stamp that the database gives the new row, and the table of scenarios.
\<close>

definition POST ::
    "jsstring option \<Rightarrow> json option \<Rightarrow> jsstring \<Rightarrow> jsstring \<Rightarrow> ScenarioRow list
       \<Rightarrow> ScenarioRow list \<times> api_response" where
  "POST session_user_id request_json fresh_id now table =
     (if \<not> truthy session_user_id then (table, unauthorized)
      else
        let body = (case request_json of None \<Rightarrow> JNull | Some b \<Rightarrow> b)
        in if falsy body then (table, badRequest)
           else case property body (js ''name'') of
             Some (JString nm) \<Rightarrow>
               if trim nm = [] \<or> \<not> typeof_object (property body (js ''inputs''))
               then (table, badRequest)
               else
                 let scenario =
                       \<lparr>row_id = fresh_id, row_name = take 80 (trim nm),
                        row_inputs = the (property body (js ''inputs'')),
                        userId = the session_user_id, row_createdAt = now\<rparr>
                 in (table @ [scenario], created scenario)
           | _ \<Rightarrow> (table, badRequest))"

subsection \<open>Example inputs and states\<close>

definition annual_plan :: InvestmentInputs where
  "annual_plan =
     \<lparr>startingAmount = 1000, contributionAmount = 100,
      contributionFrequency = FrequencyValue annual, annualGrowthRate = 0,
      inflationRate = 0, yearsToGrow = 1\<rparr>"

definition withdrawal_plan :: InvestmentInputs where
  "withdrawal_plan = annual_plan\<lparr>contributionAmount := - 100\<rparr>"



definition inflated_plan :: InvestmentInputs where
  "inflated_plan =
     \<lparr>startingAmount = 4096, contributionAmount = 0,
      contributionFrequency = FrequencyValue annual, annualGrowthRate = 0,
      inflationRate = 1200, yearsToGrow = 1\<rparr>"

definition guest_home :: Home where
  "guest_home =
     \<lparr>inputs = defaultInputs, status = unauthenticated, session_user = None,
      scenarios = [], storageReady = True, isLoadingScenarios = False,
      scenarioError = None, scenarioLoadError = None, isSavingScenario = False,
      localStorage = Map.empty\<rparr>"

definition signed_in_home :: Home where
  "signed_in_home =
     guest_home\<lparr>status := authenticated,
       session_user := Some \<lparr>user_id = Some (js ''u1''), email = Some (js ''a@b.c'')\<rparr>\<rparr>"

definition browser :: env where
  "browser =
     \<lparr>window = True, prompt = Some (js ''My plan''), confirm = True,
      randomUUID = Some (js ''id-1''), Date_now = js ''1700000000000'',
      toISOString = js ''2023-11-14T22:13:20.000Z'',
      JSON_stringify = (\<lambda>xs. concat (map name xs))\<rparr>"

text \<open>A browser without \<open>crypto.randomUUID\<close>, and a guest with ten saved scenarios.\<close>

definition plain_browser :: env where
  "plain_browser = browser\<lparr>randomUUID := None\<rparr>"

definition saved :: "nat \<Rightarrow> Scenario" where
  "saved k =
     \<lparr>scenario_id = [of_nat k], name = js ''plan'',
      createdAt = js ''2023-01-01T00:00:00.000Z'', inputs = defaultInputs\<rparr>"

definition full_home :: Home where
  "full_home = guest_home\<lparr>scenarios := map saved [0..<10]\<rparr>"

section \<open>Properties of the projection\<close>

declare month_loop.simps [simp del] year_loop.simps [simp del]

subsection \<open>One month\<close>

lemma month_body_rows [simp]: "locals.rows (month_body i m s) = locals.rows s"
  by (simp add: month_body_def Let_def)


lemma month_body_contributionThisYear:
  "contributionThisYear (month_body i m s) = contributionThisYear s + added i m"
  by (simp add: month_body_def Let_def added_def)

lemma month_body_inflationFactor:
  "inflationFactor (month_body i m s) =
     (if monthlyInflationRate i > 0 then inflationFactor s * (1 + monthlyInflationRate i)
      else inflationFactor s)"
  by (simp add: month_body_def Let_def)

subsection \<open>The twelve months of a year\<close>

lemma month_loop_fold_from: "m \<le> 13 \<Longrightarrow> month_loop i m s = fold (month_body i) [m..<13] s"
proof (induction i m s rule: month_loop.induct)
  case (1 i month s)
  show ?case
  proof (cases "month \<le> 12")
    case True
    then have "[month..<13] = month # [month + 1..<13]"
      by (simp add: upt_conv_Cons)
    with True 1 show ?thesis
      by (subst month_loop.simps) simp
  next
    case False
    with 1 have "month = 13" by simp
    then show ?thesis by (subst month_loop.simps) simp
  qed
qed

lemma month_loop_fold: "month_loop i 1 s = fold (month_body i) [1..<13] s"
  by (rule month_loop_fold_from) simp

lemma month_loop_twelve [simp]: "month_loop i (Suc 0) s = twelve_months i s"
  using month_loop_fold [of i s] by (simp only: twelve_months_def One_nat_def)

lemma fold_rows [simp]: "locals.rows (fold (month_body i) ms s) = locals.rows s"
  by (induction ms arbitrary: s) simp_all

lemma fold_inflationFactor:
  "inflationFactor (fold (month_body i) ms s) =
     (if monthlyInflationRate i > 0
      then inflationFactor s * (1 + monthlyInflationRate i) ^ length ms
      else inflationFactor s)"
  by (induction ms arbitrary: s) (simp_all add: month_body_inflationFactor)

lemma fold_contributionThisYear:
  "contributionThisYear (fold (month_body i) ms s) =
     contributionThisYear s + sum_list (map (added i) ms)"
  by (induction ms arbitrary: s) (simp_all add: month_body_contributionThisYear)



lemma twelve_rows [simp]: "locals.rows (twelve_months i s) = locals.rows s"
  unfolding twelve_months_def by (rule fold_rows)

lemma twelve_inflationFactor:
  "inflationFactor (twelve_months i s) =
     (if monthlyInflationRate i > 0 then inflationFactor s * (1 + monthlyInflationRate i) ^ 12
      else inflationFactor s)"
  unfolding twelve_months_def fold_inflationFactor by simp



lemma twelve_contributionThisYear:
  "contributionThisYear (twelve_months i s) =
     contributionThisYear s +
     (if contributionAmount i > 0
      then (if contributionFrequency i = FrequencyValue monthly then 12 * contributionAmount i
            else contributionAmount i)
      else 0)"
proof -
  have "sum_list (map (added i) [1..<13]) =
     (if contributionAmount i > 0
      then (if contributionFrequency i = FrequencyValue monthly then 12 * contributionAmount i
            else contributionAmount i)
      else 0)"
    by (simp add: upt_rec added_def month_contribution_def)
  then show ?thesis
    unfolding twelve_months_def fold_contributionThisYear by simp
qed

subsection \<open>The years\<close>

lemma year_body_eq:
  "year_body i yr s =
     (let s1 = twelve_months i (s\<lparr>contributionThisYear := 0, growthThisYear := 0\<rparr>)
      in s1\<lparr>locals.rows := locals.rows s @
            [\<lparr>year = yr, contribution = contributionThisYear s1, growth = growthThisYear s1,
              balance = locals.balance s1, totalContributions = locals.totalContributions s1,
              realBalance = locals.balance s1 / inflationFactor s1\<rparr>]\<rparr>)"
  by (simp add: year_body_def Let_def)

lemma year_loop_stop: "\<not> real yr \<le> yearsToGrow i \<Longrightarrow> year_loop i yr s = s"
  by (subst year_loop.simps) simp

lemma year_loop_invariant:
  assumes "I yr s"
    and "\<And>y t. I y t \<Longrightarrow> real y \<le> yearsToGrow i \<Longrightarrow> I (Suc y) (year_body i y t)"
  shows "\<exists>n. I n (year_loop i yr s)"
  using assms
proof (induction i yr s rule: year_loop.induct)
  case (1 i yr s)
  show ?case
  proof (cases "real yr \<le> yearsToGrow i")
    case True
    have "I (Suc yr) (year_body i yr s)"
      by (rule "1.prems"(2) [OF "1.prems"(1) True])
    then have "\<exists>n. I n (year_loop i (yr + 1) (year_body i yr s))"
      using "1.IH" [OF True] "1.prems"(2) by simp
    with True show ?thesis by (subst year_loop.simps) simp
  next
    case False
    with "1.prems"(1) show ?thesis by (subst year_loop.simps) auto
  qed
qed

lemma year_loop_years:
  "0 < yr \<Longrightarrow> map year (locals.rows (year_loop i yr s)) =
     map year (locals.rows s) @ [yr..<Suc (nat \<lfloor>yearsToGrow i\<rfloor>)]"
proof (induction i yr s rule: year_loop.induct)
  case (1 i yr s)
  show ?case
  proof (cases "real yr \<le> yearsToGrow i")
    case True
    then have le: "yr \<le> nat \<lfloor>yearsToGrow i\<rfloor>"
      by (simp add: le_nat_floor)
    then have "[yr..<Suc (nat \<lfloor>yearsToGrow i\<rfloor>)] = yr # [yr + 1..<Suc (nat \<lfloor>yearsToGrow i\<rfloor>)]"
      by (simp add: upt_conv_Cons)
    moreover have "map year (locals.rows (year_body i yr s)) = map year (locals.rows s) @ [yr]"
      by (simp add: year_body_eq Let_def)
    ultimately show ?thesis
      using True "1.IH" by (subst year_loop.simps) simp
  next
    case False
    have "\<not> yr \<le> nat \<lfloor>yearsToGrow i\<rfloor>"
    proof
      assume le: "yr \<le> nat \<lfloor>yearsToGrow i\<rfloor>"
      with "1.prems" have nonneg: "0 \<le> yearsToGrow i"
        by (cases "0 \<le> yearsToGrow i") simp_all
      from le have "real yr \<le> real (nat \<lfloor>yearsToGrow i\<rfloor>)" by simp
      also have "\<dots> \<le> yearsToGrow i"
        using nonneg by (simp add: of_nat_nat)
      finally show False using False by simp
    qed
    with False show ?thesis by (subst year_loop.simps) simp
  qed
qed

lemma summary_rows: "Summary.rows (summary i) = locals.rows (year_loop i 1 (initial_locals i))"
  by (simp add: summary_def Let_def)

lemma summary_years:
  "map year (Summary.rows (summary i)) = [1..<Suc (nat \<lfloor>yearsToGrow i\<rfloor>)]"
  unfolding summary_rows using year_loop_years [of 1 i "initial_locals i"]
  by (simp add: initial_locals_def)

lemma summary_rows_invariant:
  assumes "I 1 (initial_locals i)"
    and "\<And>y t. I y t \<Longrightarrow> real y \<le> yearsToGrow i \<Longrightarrow> I (Suc y) (year_body i y t)"
    and "\<And>n t. I n t \<Longrightarrow> P (locals.rows t)"
  shows "P (Summary.rows (summary i))"
proof -
  from year_loop_invariant [of I 1 "initial_locals i" i, OF assms(1) assms(2)]
  obtain n where "I n (year_loop i 1 (initial_locals i))" by blast
  then show ?thesis unfolding summary_rows by (rule assms(3))
qed

lemma spec_inflationFactor_closed:
  "spec_inflationFactor i n =
     (if monthlyInflationRate i > 0 then (1 + monthlyInflationRate i) ^ n else 1)"
  by (induction n) (simp_all add: monthlyInflationRate_def)

subsection \<open>The claims about the projection\<close>

text \<open>
  Claim C2. For inputs whose \<open>yearsToGrow\<close> is a whole number \<open>N \<ge> 1\<close>, the projection
  returns exactly \<open>N\<close> snapshots, and their \<open>year\<close> fields are \<open>1, 2, \<dots>, N\<close> in this
  order.
\<close>

theorem summary_returns_N_years:
  "yearsToGrow i = real N \<Longrightarrow> 1 \<le> N \<Longrightarrow>
     length (Summary.rows (summary i)) = N \<and>
     map year (Summary.rows (summary i)) = [1..<Suc N]"
proof -
  assume N: "yearsToGrow i = real N"
  then have m: "map year (Summary.rows (summary i)) = [1..<Suc N]"
    by (simp add: summary_years)
  have "length (Summary.rows (summary i)) = length (map year (Summary.rows (summary i)))"
    by simp
  also have "\<dots> = N"
    unfolding m by simp
  finally show ?thesis using m by simp
qed

theorem summary_returns_N_years_witness:
  "yearsToGrow defaultInputs = real 20 \<and> (1::nat) \<le> 20 \<and>
   length (Summary.rows (summary defaultInputs)) = 20 \<and>
   map year (Summary.rows (summary defaultInputs)) = [1..<Suc 20]"
  using summary_returns_N_years [of defaultInputs 20] by (simp add: defaultInputs_def)

text \<open>
  Claim C5. For inputs with \<open>yearsToGrow \<le> 0\<close> the projection has no snapshot, the last
  snapshot is looked up as absent rather than read, and both \<open>finalBalance\<close> and
  \<open>finalRealBalance\<close> are \<open>startingAmount\<close>.
\<close>

theorem summary_without_years:
  "yearsToGrow i \<le> 0 \<Longrightarrow>
     Summary.rows (summary i) = [] \<and>
     at_last (Summary.rows (summary i)) = None \<and>
     finalBalance (summary i) = startingAmount i \<and>
     finalRealBalance (summary i) = startingAmount i"
  by (simp add: summary_def Let_def year_loop_stop initial_locals_def at_last_def)

theorem summary_without_years_witness:
  "yearsToGrow (defaultInputs\<lparr>yearsToGrow := - 3\<rparr>) \<le> 0 \<and>
   Summary.rows (summary (defaultInputs\<lparr>yearsToGrow := - 3\<rparr>)) = [] \<and>
   finalBalance (summary (defaultInputs\<lparr>yearsToGrow := - 3\<rparr>)) = 10000 \<and>
   finalRealBalance (summary (defaultInputs\<lparr>yearsToGrow := - 3\<rparr>)) = 10000"
  using summary_without_years [of "defaultInputs\<lparr>yearsToGrow := - 3\<rparr>"]
  by (simp add: defaultInputs_def)

text \<open>
  Claim C3. The inflation factor starts at 1; a month multiplies it by
  \<open>1 + inflationRate / 100 / 12\<close> when that monthly rate is strictly positive and leaves it
  alone otherwise. Every snapshot's \<open>realBalance\<close> is its \<open>balance\<close> divided by the factor
  accumulated over the \<open>12 * year\<close> months so far, and with \<open>inflationRate \<le> 0\<close> (in
  particular 0) that factor is 1 and \<open>realBalance\<close> equals \<open>balance\<close> in every snapshot.
\<close>

theorem inflation_factor_and_realBalance:
  "inflationFactor (initial_locals i) = 1 \<and>
   inflationFactor (month_body i m s) =
     (if inflationRate i / 100 / 12 > 0
      then inflationFactor s * (1 + inflationRate i / 100 / 12)
      else inflationFactor s) \<and>
   (\<forall>r \<in> set (Summary.rows (summary i)).
      realBalance r = YearlySnapshot.balance r / spec_inflationFactor i (12 * year r)) \<and>
   (inflationRate i \<le> 0 \<longrightarrow>
      spec_inflationFactor i n = 1 \<and>
      (\<forall>r \<in> set (Summary.rows (summary i)). realBalance r = YearlySnapshot.balance r))"
proof -
  let ?Q = "\<lambda>r. realBalance r = YearlySnapshot.balance r / spec_inflationFactor i (12 * year r)"
  let ?I = "\<lambda>y (t::locals). 0 < y \<and> inflationFactor t = spec_inflationFactor i (12 * (y - 1)) \<and>
     (\<forall>r\<in>set (locals.rows t). ?Q r)"
  have rows: "\<forall>r \<in> set (Summary.rows (summary i)). ?Q r"
  proof (rule summary_rows_invariant [where I = ?I])
    show "?I 1 (initial_locals i)"
      by (simp add: initial_locals_def)
  next
    fix y and t :: locals
    assume I: "?I y t" and "real y \<le> yearsToGrow i"
    then have f: "inflationFactor (twelve_months i (t\<lparr>contributionThisYear := 0, growthThisYear := 0\<rparr>))
        = spec_inflationFactor i (12 * y)"
      by (cases y)
         (simp_all add: twelve_inflationFactor spec_inflationFactor_closed
            power_add [symmetric] algebra_simps)
    show "?I (Suc y) (year_body i y t)"
      using I f by (simp add: year_body_eq Let_def)
  next
    fix n and t :: locals
    assume "?I n t"
    then show "\<forall>r\<in>set (locals.rows t). ?Q r" by simp
  qed
  have one: "spec_inflationFactor i k = 1" if "inflationRate i \<le> 0" for k
    using that by (simp add: spec_inflationFactor_closed monthlyInflationRate_def)
  have "inflationFactor (initial_locals i) = 1"
    by (simp add: initial_locals_def)
  moreover have "inflationFactor (month_body i m s) =
     (if inflationRate i / 100 / 12 > 0
      then inflationFactor s * (1 + inflationRate i / 100 / 12)
      else inflationFactor s)"
    by (simp add: month_body_inflationFactor monthlyInflationRate_def)
  ultimately show ?thesis
    using rows one by simp
qed

theorem inflation_factor_and_realBalance_witness:
  "Summary.rows (summary inflated_plan) =
     [\<lparr>year = 1, contribution = 0, growth = 0, balance = 4096,
       totalContributions = 4096, realBalance = 1\<rparr>] \<and>
   spec_inflationFactor inflated_plan 12 = 4096 \<and>
   realBalance (hd (Summary.rows (summary inflated_plan))) =
     YearlySnapshot.balance (hd (Summary.rows (summary inflated_plan))) /
     spec_inflationFactor inflated_plan (12 * year (hd (Summary.rows (summary inflated_plan)))) \<and>
   inflationRate annual_plan \<le> 0 \<and>
   Summary.rows (summary annual_plan) =
     [\<lparr>year = 1, contribution = 100, growth = 0, balance = 1100,
       totalContributions = 1100, realBalance = 1100\<rparr>] \<and>
   realBalance (hd (Summary.rows (summary annual_plan))) =
     YearlySnapshot.balance (hd (Summary.rows (summary annual_plan)))"
proof -
  have a: "Summary.rows (summary inflated_plan) =
     [\<lparr>year = 1, contribution = 0, growth = 0, balance = 4096,
       totalContributions = 4096, realBalance = 1\<rparr>]"
    by (simp add: summary_def inflated_plan_def Let_def year_loop.simps year_body_def
        month_loop.simps month_body_def month_contribution_def monthlyGrowthRate_def
        monthlyInflationRate_def initial_locals_def del: month_loop_twelve)
  have b: "Summary.rows (summary annual_plan) =
     [\<lparr>year = 1, contribution = 100, growth = 0, balance = 1100,
       totalContributions = 1100, realBalance = 1100\<rparr>]"
    by (simp add: summary_def annual_plan_def Let_def year_loop.simps year_body_def
        month_loop.simps month_body_def month_contribution_def monthlyGrowthRate_def
        monthlyInflationRate_def initial_locals_def del: month_loop_twelve)
  have c: "spec_inflationFactor inflated_plan 12 = 4096"
    by (simp add: spec_inflationFactor_closed monthlyInflationRate_def inflated_plan_def)
  have d: "inflationRate annual_plan \<le> 0"
    by (simp add: annual_plan_def)
  show ?thesis
    using inflation_factor_and_realBalance [of inflated_plan]
      inflation_factor_and_realBalance [of annual_plan] a b c d
    by simp
qed

lemma year_body_balance:
  "locals.balance (year_body i yr s) =
     locals.balance (twelve_months i (s\<lparr>contributionThisYear := 0, growthThisYear := 0\<rparr>))"
  by (simp add: year_body_eq Let_def)

lemma year_body_contribution:
  "map contribution (locals.rows (year_body i yr s)) =
     map contribution (locals.rows s) @
     [if contributionAmount i > 0
      then (if contributionFrequency i = FrequencyValue monthly then 12 * contributionAmount i
            else contributionAmount i)
      else 0]"
  by (simp add: year_body_eq Let_def twelve_contributionThisYear)







text \<open>
  Claim C1. A year is twelve monthly steps. For a frequency of \<open>monthly\<close> or \<open>annual\<close>
  and \<open>contributionAmount \<ge> 0\<close> each step is the specification's: the contribution (every
  month when monthly, in month 1 only when annual) is added first, the month's growth is
  the new balance times \<open>annualGrowthRate / 100 / 12\<close>, and it is added to the balance. A
  \<open>contributionAmount \<le> 0\<close> is never added: the step then only adds the growth of the
  unchanged balance. The \<open>contribution\<close> field of every snapshot is \<open>contributionAmount\<close>
  once with annual frequency (twelve times with monthly frequency) when the amount is
  positive, and 0 otherwise.
\<close>

theorem monthly_step_refines_spec:
  "contributionFrequency i = FrequencyValue f \<longrightarrow>
     month_loop i 1 s = fold (month_body i) [1..<13] s \<and>
     (0 \<le> contributionAmount i \<longrightarrow>
        locals.balance (month_body i month s) =
          spec_month_balance i f month (locals.balance s) \<and>
        growthThisYear (month_body i month s) =
          growthThisYear s + spec_month_growth i f month (locals.balance s)) \<and>
     (contributionAmount i \<le> 0 \<longrightarrow>
        locals.balance (month_body i month s) =
          locals.balance s + locals.balance s * (annualGrowthRate i / 100 / 12)) \<and>
     (\<forall>r \<in> set (Summary.rows (summary i)).
        contribution r =
          (if 0 < contributionAmount i
           then (case f of annual \<Rightarrow> contributionAmount i | monthly \<Rightarrow> 12 * contributionAmount i)
           else 0))"
proof (intro impI conjI)
  show "month_loop i 1 s = fold (month_body i) [1..<13] s"
    by (rule month_loop_fold)
next
  assume f: "contributionFrequency i = FrequencyValue f" and "0 \<le> contributionAmount i"
  then show "locals.balance (month_body i month s) =
      spec_month_balance i f month (locals.balance s)"
    by (cases f)
       (auto simp: month_body_def Let_def month_contribution_def spec_month_balance_def
          spec_month_growth_def spec_contribution_def monthlyGrowthRate_def)
next
  assume f: "contributionFrequency i = FrequencyValue f" and "0 \<le> contributionAmount i"
  then show "growthThisYear (month_body i month s) =
      growthThisYear s + spec_month_growth i f month (locals.balance s)"
    by (cases f)
       (auto simp: month_body_def Let_def month_contribution_def
          spec_month_growth_def spec_contribution_def monthlyGrowthRate_def)
next
  assume "contributionAmount i \<le> 0"
  then show "locals.balance (month_body i month s) =
      locals.balance s + locals.balance s * (annualGrowthRate i / 100 / 12)"
    by (simp add: month_body_def Let_def month_contribution_def monthlyGrowthRate_def)
next
  assume f: "contributionFrequency i = FrequencyValue f"
  let ?k = "if 0 < contributionAmount i
           then (case f of annual \<Rightarrow> contributionAmount i | monthly \<Rightarrow> 12 * contributionAmount i)
           else 0"
  let ?I = "\<lambda>(y::nat) (t::locals). \<forall>c \<in> set (map contribution (locals.rows t)). c = ?k"
  have "\<forall>c \<in> set (map contribution (Summary.rows (summary i))). c = ?k"
  proof (rule summary_rows_invariant [where I = ?I])
    show "?I 1 (initial_locals i)"
      by (simp add: initial_locals_def)
  next
    fix y :: nat and t :: locals
    assume "?I y t"
    then show "?I (Suc y) (year_body i y t)"
      unfolding year_body_contribution using f by (cases f) auto
  next
    fix n :: nat and t :: locals
    assume "?I n t"
    then show "\<forall>c \<in> set (map contribution (locals.rows t)). c = ?k" .
  qed
  then show "\<forall>r \<in> set (Summary.rows (summary i)). contribution r = ?k"
    by simp
qed

lemma summary_annual_plan:
  "Summary.rows (summary annual_plan) =
     [\<lparr>year = 1, contribution = 100, growth = 0, balance = 1100,
       totalContributions = 1100, realBalance = 1100\<rparr>]"
  by (simp add: summary_def annual_plan_def Let_def year_loop.simps year_body_def
      month_loop.simps month_body_def month_contribution_def monthlyGrowthRate_def
      monthlyInflationRate_def initial_locals_def del: month_loop_twelve)

lemma summary_withdrawal_plan:
  "Summary.rows (summary withdrawal_plan) =
     [\<lparr>year = 1, contribution = 0, growth = 0, balance = 1000,
       totalContributions = 1000, realBalance = 1000\<rparr>]"
  by (simp add: summary_def withdrawal_plan_def annual_plan_def Let_def year_loop.simps
      year_body_def month_loop.simps month_body_def month_contribution_def
      monthlyGrowthRate_def monthlyInflationRate_def initial_locals_def del: month_loop_twelve)

theorem monthly_step_refines_spec_witness:
  "contributionFrequency annual_plan = FrequencyValue annual \<and>
   0 \<le> contributionAmount annual_plan \<and>
   locals.balance (month_body annual_plan 1 (initial_locals annual_plan)) =
     spec_month_balance annual_plan annual 1 (locals.balance (initial_locals annual_plan)) \<and>
   spec_month_balance annual_plan annual 1 (locals.balance (initial_locals annual_plan)) = 1100 \<and>
   contribution (hd (Summary.rows (summary annual_plan))) = contributionAmount annual_plan \<and>
   contributionFrequency withdrawal_plan = FrequencyValue annual \<and>
   contributionAmount withdrawal_plan \<le> 0 \<and>
   locals.balance (month_body withdrawal_plan 1 (initial_locals withdrawal_plan)) = 1000"
proof -
  have a: "contributionFrequency annual_plan = FrequencyValue annual \<and>
      0 \<le> contributionAmount annual_plan \<and> 0 < contributionAmount annual_plan"
    by (simp add: annual_plan_def)
  have w: "contributionFrequency withdrawal_plan = FrequencyValue annual \<and>
      contributionAmount withdrawal_plan \<le> 0 \<and>
      locals.balance (initial_locals withdrawal_plan) = 1000 \<and>
      annualGrowthRate withdrawal_plan = 0"
    by (simp add: withdrawal_plan_def annual_plan_def initial_locals_def)
  have v: "spec_month_balance annual_plan annual 1 (locals.balance (initial_locals annual_plan)) = 1100"
    by (simp add: spec_month_balance_def spec_month_growth_def spec_contribution_def
        annual_plan_def initial_locals_def)
  show ?thesis
    using monthly_step_refines_spec [of annual_plan annual "initial_locals annual_plan" 1]
      monthly_step_refines_spec [of withdrawal_plan annual "initial_locals withdrawal_plan" 1]
      a w v summary_annual_plan
    by simp
qed

theorem added_every_month_counterexample:
  "contributionFrequency withdrawal_plan = FrequencyValue annual \<and>
   contributionAmount withdrawal_plan = - 100 \<and>
   locals.balance (month_body withdrawal_plan 1 (initial_locals withdrawal_plan)) = 1000 \<and>
   spec_month_balance withdrawal_plan annual 1
     (locals.balance (initial_locals withdrawal_plan)) = 900 \<and>
   map contribution (Summary.rows (summary withdrawal_plan)) = [0]"
  by (simp add: summary_withdrawal_plan)
     (simp add: withdrawal_plan_def annual_plan_def initial_locals_def month_body_def Let_def
        month_contribution_def monthlyGrowthRate_def monthlyInflationRate_def
        spec_month_balance_def spec_month_growth_def spec_contribution_def)

section \<open>Properties of the controller\<close>

lemma js_simps [simp]: "js [] = []" "js (c # cs) = of_nat (of_char c) # js cs"
  by (simp_all add: js_def)

lemma trim_nonempty_source: "trim p \<noteq> [] \<Longrightarrow> p \<noteq> []"
  by (auto simp: trim_def)

lemma guest_save:
  assumes "\<not> isAuthenticated st" and "storageReady st" and "window e"
    and "prompt e = Some p" and "trim p \<noteq> []"
  shows "handleSaveScenario e st =
    (st\<lparr>scenarios :=
        take 10 (\<lparr>scenario_id = new_id e, name = trim p, createdAt = toISOString e,
                  inputs = Home.inputs st\<rparr> # scenarios st)\<rparr>, None)"
  using assms trim_nonempty_source [of p] by (simp add: handleSaveScenario_def Let_def)

lemma remote_save:
  assumes "isAuthenticated st" and "window e" and "prompt e = Some p" and "trim p \<noteq> []"
  shows "handleSaveScenario e st =
    (st\<lparr>isSavingScenario := True, scenarioError := None\<rparr>,
     Some (POST_scenarios (trim p) (Home.inputs st)))"
  using assms trim_nonempty_source [of p] by (simp add: handleSaveScenario_def Let_def)

lemma handleSaveScenario_request:
  "snd (handleSaveScenario e st) \<noteq> None \<Longrightarrow>
     isSavingScenario (fst (handleSaveScenario e st)) \<and>
     scenarios (fst (handleSaveScenario e st)) = scenarios st \<and>
     Home.inputs (fst (handleSaveScenario e st)) = Home.inputs st"
  by (auto simp: handleSaveScenario_def Let_def split: if_splits option.splits)

lemma trim_My_plan: "trim (js ''My plan'') = js ''My plan''"
  by (simp add: trim_def isWhiteSpace_def)

lemma My_plan_nonempty: "js ''My plan'' \<noteq> []"
  by simp

lemma isAuthenticated_examples:
  "\<not> isAuthenticated guest_home" "isAuthenticated signed_in_home"
  by (simp_all add: isAuthenticated_def guest_home_def signed_in_home_def truthy_def)

subsection \<open>Input changes\<close>

text \<open>
  Claim C10. When the conversion of the input string is \<open>NaN\<close>, \<open>handleInputChange\<close>
  leaves the whole state, and so the whole \<open>InvestmentInputs\<close>, as it was, for every key.
  When the conversion yields a number, the slot under the given key holds that number
  afterwards, every other slot holds what it held before, and nothing but the inputs
  changes.
\<close>

theorem handleInputChange_frame:
  "(Number v = None \<longrightarrow> handleInputChange Number field v st = st) \<and>
   (Number v = Some n \<longrightarrow>
      field_value field (Home.inputs (handleInputChange Number field v st)) = NumberValue n \<and>
      (\<forall>g. g \<noteq> field \<longrightarrow>
         field_value g (Home.inputs (handleInputChange Number field v st)) =
         field_value g (Home.inputs st)) \<and>
      handleInputChange Number field v st =
        st\<lparr>Home.inputs := Home.inputs (handleInputChange Number field v st)\<rparr>)"
proof (intro conjI impI allI)
  assume "Number v = None"
  then show "handleInputChange Number field v st = st"
    by (simp add: handleInputChange_def)
next
  assume "Number v = Some n"
  then show "field_value field (Home.inputs (handleInputChange Number field v st)) = NumberValue n"
    by (cases field) (simp_all add: handleInputChange_def)
next
  fix g
  assume "Number v = Some n" and "g \<noteq> field"
  then show "field_value g (Home.inputs (handleInputChange Number field v st)) =
      field_value g (Home.inputs st)"
    by (cases field; cases g) (simp_all add: handleInputChange_def)
next
  show "handleInputChange Number field v st =
      st\<lparr>Home.inputs := Home.inputs (handleInputChange Number field v st)\<rparr>"
    by (simp add: handleInputChange_def Let_def)
qed

theorem handleInputChange_frame_witness:
  "(\<lambda>v. if v = js ''42'' then Some (42::real) else None) (js ''4x'') = None \<and>
   handleInputChange (\<lambda>v. if v = js ''42'' then Some 42 else None)
     K_yearsToGrow (js ''4x'') guest_home = guest_home \<and>
   (\<lambda>v. if v = js ''42'' then Some (42::real) else None) (js ''42'') = Some 42 \<and>
   yearsToGrow (Home.inputs (handleInputChange (\<lambda>v. if v = js ''42'' then Some 42 else None)
     K_yearsToGrow (js ''42'') guest_home)) = 42 \<and>
   field_value K_startingAmount
     (Home.inputs (handleInputChange (\<lambda>v. if v = js ''42'' then Some 42 else None)
        K_yearsToGrow (js ''42'') guest_home)) = NumberValue 10000"
proof -
  let ?N = "\<lambda>v. if v = js ''42'' then Some (42::real) else None"
  have a: "?N (js ''4x'') = None" and b: "?N (js ''42'') = Some 42"
    by simp_all
  have c: "field_value K_startingAmount (Home.inputs guest_home) = NumberValue 10000"
    by (simp add: guest_home_def defaultInputs_def)
  from handleInputChange_frame [of ?N "js ''4x''" K_yearsToGrow guest_home 42] a
  have 1: "handleInputChange ?N K_yearsToGrow (js ''4x'') guest_home = guest_home"
    by blast
  from handleInputChange_frame [of ?N "js ''42''" K_yearsToGrow guest_home 42] b
  have 2: "field_value K_yearsToGrow
        (Home.inputs (handleInputChange ?N K_yearsToGrow (js ''42'') guest_home)) = NumberValue 42"
    and 3: "field_value K_startingAmount
        (Home.inputs (handleInputChange ?N K_yearsToGrow (js ''42'') guest_home)) =
        field_value K_startingAmount (Home.inputs guest_home)"
    by (blast, auto)
  from 2 have "yearsToGrow (Home.inputs (handleInputChange ?N K_yearsToGrow (js ''42'') guest_home)) = 42"
    by simp
  with 1 3 a b c show ?thesis by simp
qed

subsection \<open>Saving\<close>

lemma step_single_flight:
  assumes "snd c \<le> 1" and "isSavingScenario (fst c) \<longleftrightarrow> snd c = 1"
  shows "snd (step Number ev c) \<le> 1 \<and>
    (isSavingScenario (fst (step Number ev c)) \<longleftrightarrow> snd (step Number ev c) = 1)"
proof (cases c)
  case (Pair st n)
  show ?thesis
  proof (cases ev)
    case (SaveClick e)
    show ?thesis
    proof (cases "canSaveScenario st")
      case True
      then have idle: "\<not> isSavingScenario st"
        by (simp add: canSaveScenario_def split: if_splits)
      with assms Pair have n: "n = 0" by auto
      show ?thesis
      proof (cases "snd (handleSaveScenario e st)")
        case None
        then have "isSavingScenario (fst (handleSaveScenario e st)) = isSavingScenario st"
          by (auto simp: handleSaveScenario_def Let_def split: if_splits option.splits)
        with None idle n True show ?thesis
          by (cases "handleSaveScenario e st") (simp add: Pair SaveClick save_button_click_def)
      next
        case (Some rq)
        with handleSaveScenario_request [of e st]
        have "isSavingScenario (fst (handleSaveScenario e st))" by simp
        with Some n True show ?thesis
          by (cases "handleSaveScenario e st") (simp add: Pair SaveClick save_button_click_def)
      qed
    next
      case False
      with assms Pair show ?thesis
        by (simp add: SaveClick save_button_click_def)
    qed
  next
    case (SaveSettled res)
    with assms Pair show ?thesis
      by (auto simp: handleSaveScenario_settled_def Let_def)
  next
    case (DeleteClick e i)
    with assms Pair show ?thesis
      by (simp add: handleDeleteScenario_def Let_def)
  next
    case (DeleteSettled i res)
    with assms Pair show ?thesis
      by (simp add: handleDeleteScenario_settled_def Let_def split: option.splits)
  next
    case (InputChange field v)
    with assms Pair show ?thesis
      by (simp add: handleInputChange_def Let_def)
  next
    case (FrequencyChange v)
    with assms Pair show ?thesis
      by (simp add: handleFrequencyChange_def)
  next
    case (WriteEffect e)
    with assms Pair show ?thesis
      by (simp add: storage_write_effect_def)
  qed
qed

lemma run_single_flight:
  assumes "snd c \<le> 1" and "isSavingScenario (fst c) \<longleftrightarrow> snd c = 1"
  shows "snd (run Number evs c) \<le> 1 \<and>
    (isSavingScenario (fst (run Number evs c)) \<longleftrightarrow> snd (run Number evs c) = 1)"
  using assms unfolding run_def
proof (induction evs arbitrary: c)
  case Nil
  then show ?case by simp
next
  case (Cons ev evs)
  from step_single_flight [OF Cons.prems, of Number ev]
  show ?case using Cons.IH [of "step Number ev c"] by simp
qed

text \<open>
  Claim C8. While a save is in flight (\<open>isSavingScenario\<close>), saving is disabled and a
  click on the save button changes nothing and sends nothing. Whenever a click does send a
  request, the flag is set and the list is not touched yet; when the request settles,
  with any outcome, the flag is cleared and the list has grown by at most one entry. In
  every run from a state with no save in flight, at most one save request is in flight at
  any time, and the flag is set exactly while one is.
\<close>

theorem save_single_flight:
  "(isSavingScenario st \<longrightarrow> \<not> canSaveScenario st \<and> save_button_click e st = (st, None)) \<and>
   (snd (save_button_click e st) \<noteq> None \<longrightarrow>
      isSavingScenario (fst (save_button_click e st)) \<and>
      scenarios (fst (save_button_click e st)) = scenarios st) \<and>
   \<not> isSavingScenario (handleSaveScenario_settled res st) \<and>
   length (scenarios (handleSaveScenario_settled res st)) \<le> Suc (length (scenarios st)) \<and>
   (\<not> isSavingScenario st \<longrightarrow>
      snd (run Number evs (st, 0)) \<le> 1 \<and>
      (isSavingScenario (fst (run Number evs (st, 0))) \<longleftrightarrow> snd (run Number evs (st, 0)) = 1))"
proof (intro conjI impI)
  assume "isSavingScenario st"
  then show "\<not> canSaveScenario st" and "save_button_click e st = (st, None)"
    by (simp_all add: canSaveScenario_def save_button_click_def)
next
  assume "snd (save_button_click e st) \<noteq> None"
  then have "snd (handleSaveScenario e st) \<noteq> None"
    and "save_button_click e st = handleSaveScenario e st"
    by (simp_all add: save_button_click_def split: if_splits)
  with handleSaveScenario_request [of e st]
  show "isSavingScenario (fst (save_button_click e st))"
    and "scenarios (fst (save_button_click e st)) = scenarios st"
    by simp_all
next
  show "\<not> isSavingScenario (handleSaveScenario_settled res st)"
    by (simp add: handleSaveScenario_settled_def Let_def)
next
  show "length (scenarios (handleSaveScenario_settled res st)) \<le> Suc (length (scenarios st))"
    by (simp add: handleSaveScenario_settled_def Let_def split: option.splits)
next
  assume "\<not> isSavingScenario st"
  then have "snd (run Number evs (st, 0)) \<le> 1 \<and>
      (isSavingScenario (fst (run Number evs (st, 0))) \<longleftrightarrow> snd (run Number evs (st, 0)) = 1)"
    by (intro run_single_flight) simp_all
  then show "snd (run Number evs (st, 0)) \<le> 1"
    and "isSavingScenario (fst (run Number evs (st, 0))) \<longleftrightarrow> snd (run Number evs (st, 0)) = 1"
    by simp_all
qed

theorem save_single_flight_witness:
  "save_button_click browser signed_in_home =
     (signed_in_home\<lparr>isSavingScenario := True, scenarioError := None\<rparr>,
      Some (POST_scenarios (js ''My plan'') defaultInputs)) \<and>
   isSavingScenario (fst (save_button_click browser signed_in_home)) \<and>
   save_button_click browser (fst (save_button_click browser signed_in_home)) =
     (fst (save_button_click browser signed_in_home), None) \<and>
   \<not> isSavingScenario signed_in_home \<and>
   snd (run (\<lambda>v. None) [SaveClick browser, SaveClick browser] (signed_in_home, 0)) = 1 \<and>
   snd (run (\<lambda>v. None) [SaveClick browser, SaveClick browser, SaveSettled None,
          SaveClick browser] (signed_in_home, 0)) = 1"
proof -
  let ?busy = "signed_in_home\<lparr>isSavingScenario := True, scenarioError := None\<rparr>"
  let ?rq = "POST_scenarios (js ''My plan'') defaultInputs"
  have idle: "\<not> isSavingScenario signed_in_home"
    by (simp add: signed_in_home_def guest_home_def)
  have auth: "isAuthenticated st" if "session_user st = session_user signed_in_home"
    and "status st = authenticated" for st
    using that by (simp add: isAuthenticated_def signed_in_home_def guest_home_def truthy_def)
  have save: "handleSaveScenario browser st =
     (st\<lparr>isSavingScenario := True, scenarioError := None\<rparr>,
      Some (POST_scenarios (js ''My plan'') (Home.inputs st)))"
    if "isAuthenticated st" for st
    using remote_save [of st browser "js ''My plan''"] that My_plan_nonempty
    by (simp add: browser_def trim_My_plan del: js_simps)
  have can: "canSaveScenario signed_in_home"
    using idle by (simp add: canSaveScenario_def isAuthenticated_examples)
  have click: "save_button_click browser signed_in_home = (?busy, Some ?rq)"
    using can save [OF isAuthenticated_examples(2)]
    by (simp add: save_button_click_def signed_in_home_def guest_home_def del: js_simps)
  then have sent: "snd (save_button_click browser signed_in_home) \<noteq> None"
    by simp
  from save_single_flight [of signed_in_home browser None] sent
  have flag: "isSavingScenario (fst (save_button_click browser signed_in_home))"
    by blast
  from save_single_flight [of "fst (save_button_click browser signed_in_home)" browser None] flag
  have again: "save_button_click browser (fst (save_button_click browser signed_in_home)) =
     (fst (save_button_click browser signed_in_home), None)"
    by blast
  then have again': "save_button_click browser ?busy = (?busy, None)"
    unfolding click by simp
  have r1: "run (\<lambda>v. None) [SaveClick browser, SaveClick browser] (signed_in_home, 0) = (?busy, 1)"
    by (simp add: run_def click again' del: js_simps)
  let ?failed = "handleSaveScenario_settled None ?busy"
  have settled: "?failed = signed_in_home\<lparr>scenarioError := Some save_error\<rparr>"
    by (simp add: handleSaveScenario_settled_def Let_def signed_in_home_def guest_home_def)
  have "isAuthenticated ?failed"
    unfolding settled by (rule auth) (simp_all add: signed_in_home_def)
  moreover have "\<not> isSavingScenario ?failed"
    unfolding settled using idle by simp
  ultimately have "snd (save_button_click browser ?failed) \<noteq> None"
    using save [of ?failed] by (simp add: save_button_click_def canSaveScenario_def)
  then obtain st' rq where "save_button_click browser ?failed = (st', Some rq)"
    by (cases "save_button_click browser ?failed") auto
  then have r2: "snd (run (\<lambda>v. None) [SaveClick browser, SaveClick browser, SaveSettled None,
          SaveClick browser] (signed_in_home, 0)) = 1"
    by (simp add: run_def click again' del: js_simps)
  from click flag again idle r1 r2 show ?thesis by simp
qed

text \<open>
  Claim C9. When a remote save or delete fails (the \<open>fetch\<close> rejects or the response is
  not of the 200 class), the state after the handler is the state before it with the error
  message set and, for a save, the saving flag cleared: the scenario list and the inputs
  are the same. The list differs after a settled save or delete only if the response was
  a confirmed success, and sending the request does not touch the list or the inputs.
\<close>

theorem failed_remote_operation_keeps_state:
  "(\<not> confirmed_success res \<longrightarrow>
      handleSaveScenario_settled res st =
        st\<lparr>scenarioError := Some save_error, isSavingScenario := False\<rparr> \<and>
      handleDeleteScenario_settled i res st = st\<lparr>scenarioError := Some delete_error\<rparr>) \<and>
   (res = Some r \<and> json r = None \<longrightarrow>
      handleSaveScenario_settled res st =
        st\<lparr>scenarioError := Some save_error, isSavingScenario := False\<rparr>) \<and>
   (scenarios (handleSaveScenario_settled res st) \<noteq> scenarios st \<longrightarrow> confirmed_success res) \<and>
   (scenarios (handleDeleteScenario_settled i res st) \<noteq> scenarios st \<longrightarrow> confirmed_success res) \<and>
   Home.inputs (handleSaveScenario_settled res st) = Home.inputs st \<and>
   Home.inputs (handleDeleteScenario_settled i res st) = Home.inputs st \<and>
   (isAuthenticated st \<longrightarrow>
      scenarios (fst (handleSaveScenario e st)) = scenarios st \<and>
      Home.inputs (fst (handleSaveScenario e st)) = Home.inputs st \<and>
      scenarios (fst (handleDeleteScenario e i st)) = scenarios st \<and>
      Home.inputs (fst (handleDeleteScenario e i st)) = Home.inputs st)"
proof (intro conjI impI)
  assume "\<not> confirmed_success res"
  then show "handleSaveScenario_settled res st =
      st\<lparr>scenarioError := Some save_error, isSavingScenario := False\<rparr>"
    and "handleDeleteScenario_settled i res st = st\<lparr>scenarioError := Some delete_error\<rparr>"
    by (simp_all add: confirmed_success_def handleSaveScenario_settled_def
        handleDeleteScenario_settled_def Let_def split: option.splits)
next
  assume "res = Some r \<and> json r = None"
  then show "handleSaveScenario_settled res st =
      st\<lparr>scenarioError := Some save_error, isSavingScenario := False\<rparr>"
    by (simp add: handleSaveScenario_settled_def Let_def)
next
  assume "scenarios (handleSaveScenario_settled res st) \<noteq> scenarios st"
  then show "confirmed_success res"
    by (auto simp: confirmed_success_def handleSaveScenario_settled_def Let_def
        split: option.splits if_splits)
next
  assume "scenarios (handleDeleteScenario_settled i res st) \<noteq> scenarios st"
  then show "confirmed_success res"
    by (auto simp: confirmed_success_def handleDeleteScenario_settled_def Let_def
        split: option.splits if_splits)
next
  show "Home.inputs (handleSaveScenario_settled res st) = Home.inputs st"
    by (simp add: handleSaveScenario_settled_def Let_def split: option.splits)
next
  show "Home.inputs (handleDeleteScenario_settled i res st) = Home.inputs st"
    by (simp add: handleDeleteScenario_settled_def Let_def split: option.splits)
next
  assume "isAuthenticated st"
  then show "scenarios (fst (handleSaveScenario e st)) = scenarios st"
    and "Home.inputs (fst (handleSaveScenario e st)) = Home.inputs st"
    and "scenarios (fst (handleDeleteScenario e i st)) = scenarios st"
    and "Home.inputs (fst (handleDeleteScenario e i st)) = Home.inputs st"
    by (simp_all add: handleSaveScenario_def handleDeleteScenario_def Let_def
        split: option.splits)
qed

theorem failed_remote_operation_keeps_state_witness:
  "\<not> confirmed_success (Some \<lparr>http_status = 500, json = None\<rparr>) \<and>
   \<not> confirmed_success None \<and>
   handleSaveScenario_settled (Some \<lparr>http_status = 500, json = None\<rparr>)
       (signed_in_home\<lparr>isSavingScenario := True\<rparr>) =
     signed_in_home\<lparr>scenarioError := Some save_error\<rparr> \<and>
   handleDeleteScenario_settled (js ''id-1'') None signed_in_home =
     signed_in_home\<lparr>scenarioError := Some delete_error\<rparr> \<and>
   isAuthenticated signed_in_home \<and>
   scenarios (fst (handleSaveScenario browser signed_in_home)) = scenarios signed_in_home"
proof -
  have f1: "\<not> confirmed_success (Some \<lparr>http_status = 500, json = None\<rparr>)"
    and f2: "\<not> confirmed_success None"
    by (simp_all add: confirmed_success_def ok_def)
  have idle: "signed_in_home\<lparr>isSavingScenario := True,
      scenarioError := Some save_error, isSavingScenario := False\<rparr> =
      signed_in_home\<lparr>scenarioError := Some save_error\<rparr>"
    by (simp add: signed_in_home_def guest_home_def)
  show ?thesis
    using failed_remote_operation_keeps_state
        [of "Some \<lparr>http_status = 500, json = None\<rparr>"
          "signed_in_home\<lparr>isSavingScenario := True\<rparr>" "js ''id-1''"
          "\<lparr>http_status = 500, json = None\<rparr>" browser]
      failed_remote_operation_keeps_state
        [of None signed_in_home "js ''id-1''" "\<lparr>http_status = 500, json = None\<rparr>" browser]
      f1 f2 idle isAuthenticated_examples(2)
    by (simp del: js_simps)
qed

subsection \<open>Saving in guest mode\<close>

lemma storage_write_guest:
  assumes "\<not> isAuthenticated st" and "storageReady st" and "window e"
  shows "storage_write_effect e st =
    st\<lparr>localStorage := (localStorage st)(storageKey st \<mapsto> JSON_stringify e (scenarios st))\<rparr>"
  using assms by (simp add: storage_write_effect_def)

lemma scenarios_update_frame [simp]:
  "isAuthenticated (st\<lparr>scenarios := xs\<rparr>) = isAuthenticated st"
  "storageKey (st\<lparr>scenarios := xs\<rparr>) = storageKey st"
  by (simp_all add: isAuthenticated_def storageKey_def)

lemma distinct_take_Cons:
  "x \<notin> set xs \<Longrightarrow> distinct xs \<Longrightarrow> distinct (take n (x # xs))"
  by (rule distinct_take) simp

lemma guest_examples:
  "\<not> isAuthenticated full_home" "storageReady full_home" "storageReady guest_home"
  "window browser" "window plain_browser"
  "prompt browser = Some (js ''My plan'')" "prompt plain_browser = Some (js ''My plan'')"
  by (simp_all add: isAuthenticated_def full_home_def guest_home_def browser_def
      plain_browser_def del: js_simps)

text \<open>
  Claim C6. In guest mode, with the storage ready, a save under a name that is not blank
  puts a new scenario in front of the list and keeps the first 10 entries. The new
  scenario carries the trimmed name, the current inputs, field for field, and as its id
  the result of \<open>crypto.randomUUID()\<close> when that method exists and the text of
  \<open>Date.now()\<close> otherwise; it is the first element of the list afterwards. The handler
  does not compare the id with the ids in the list: the ids of the new list are pairwise
  distinct exactly when the id is not among the first nine old ids and these are distinct.
  No request is sent, and the write effect that follows stores the text of the full new
  list under the storage key.
\<close>

theorem guest_save_prepends_and_persists:
  "\<not> isAuthenticated st \<and> storageReady st \<and> window e \<and> prompt e = Some p \<and> trim p \<noteq> [] \<longrightarrow>
     snd (handleSaveScenario e st) = None \<and>
     scenarios (fst (handleSaveScenario e st)) =
       take 10 (\<lparr>scenario_id = (case randomUUID e of Some u \<Rightarrow> u | None \<Rightarrow> Date_now e),
                 name = trim p, createdAt = toISOString e,
                 inputs = Home.inputs st\<rparr> # scenarios st) \<and>
     length (scenarios (fst (handleSaveScenario e st))) = min 10 (Suc (length (scenarios st))) \<and>
     scenario_id (hd (scenarios (fst (handleSaveScenario e st)))) =
       (case randomUUID e of Some u \<Rightarrow> u | None \<Rightarrow> Date_now e) \<and>
     name (hd (scenarios (fst (handleSaveScenario e st)))) = trim p \<and>
     Scenario.inputs (hd (scenarios (fst (handleSaveScenario e st)))) = Home.inputs st \<and>
     tl (scenarios (fst (handleSaveScenario e st))) = take 9 (scenarios st) \<and>
     (distinct (map scenario_id (scenarios (fst (handleSaveScenario e st)))) \<longleftrightarrow>
        (case randomUUID e of Some u \<Rightarrow> u | None \<Rightarrow> Date_now e)
          \<notin> set (take 9 (map scenario_id (scenarios st))) \<and>
        distinct (take 9 (map scenario_id (scenarios st)))) \<and>
     scenarios (storage_write_effect e (fst (handleSaveScenario e st))) =
       scenarios (fst (handleSaveScenario e st)) \<and>
     localStorage (storage_write_effect e (fst (handleSaveScenario e st))) (storageKey st) =
       Some (JSON_stringify e (scenarios (fst (handleSaveScenario e st))))"
proof
  assume a: "\<not> isAuthenticated st \<and> storageReady st \<and> window e \<and> prompt e = Some p \<and> trim p \<noteq> []"
  let ?id = "case randomUUID e of Some u \<Rightarrow> u | None \<Rightarrow> Date_now e"
  let ?new = "\<lparr>scenario_id = ?id, name = trim p, createdAt = toISOString e,
      inputs = Home.inputs st\<rparr>"
  let ?st = "st\<lparr>scenarios := take 10 (?new # scenarios st)\<rparr>"
  have ten: "take 10 (?new # scenarios st) = ?new # take 9 (scenarios st)"
    by (simp add: take_Cons')
  from a have "handleSaveScenario e st = (?st, None)"
    using guest_save [of st e p] by (simp add: new_id_def)
  then have save: "handleSaveScenario e st = (st\<lparr>scenarios := ?new # take 9 (scenarios st)\<rparr>, None)"
    unfolding ten .
  from a have wr: "storage_write_effect e (st\<lparr>scenarios := ?new # take 9 (scenarios st)\<rparr>) =
      st\<lparr>scenarios := ?new # take 9 (scenarios st),
         localStorage := (localStorage st)(storageKey st \<mapsto>
           JSON_stringify e (?new # take 9 (scenarios st)))\<rparr>"
    using storage_write_guest [of "st\<lparr>scenarios := ?new # take 9 (scenarios st)\<rparr>" e] by simp
  show "snd (handleSaveScenario e st) = None \<and>
     scenarios (fst (handleSaveScenario e st)) = take 10 (?new # scenarios st) \<and>
     length (scenarios (fst (handleSaveScenario e st))) = min 10 (Suc (length (scenarios st))) \<and>
     scenario_id (hd (scenarios (fst (handleSaveScenario e st)))) = ?id \<and>
     name (hd (scenarios (fst (handleSaveScenario e st)))) = trim p \<and>
     Scenario.inputs (hd (scenarios (fst (handleSaveScenario e st)))) = Home.inputs st \<and>
     tl (scenarios (fst (handleSaveScenario e st))) = take 9 (scenarios st) \<and>
     (distinct (map scenario_id (scenarios (fst (handleSaveScenario e st)))) \<longleftrightarrow>
        ?id \<notin> set (take 9 (map scenario_id (scenarios st))) \<and>
        distinct (take 9 (map scenario_id (scenarios st)))) \<and>
     scenarios (storage_write_effect e (fst (handleSaveScenario e st))) =
       scenarios (fst (handleSaveScenario e st)) \<and>
     localStorage (storage_write_effect e (fst (handleSaveScenario e st))) (storageKey st) =
       Some (JSON_stringify e (scenarios (fst (handleSaveScenario e st))))"
    unfolding save fst_conv snd_conv wr ten by (simp add: take_map min_def)
qed

theorem guest_save_prepends_and_persists_witness:
  "\<not> isAuthenticated full_home \<and> storageReady full_home \<and> window browser \<and>
   prompt browser = Some (js ''My plan'') \<and> trim (js ''My plan'') \<noteq> [] \<and>
   length (scenarios full_home) = 10 \<and>
   scenarios (fst (handleSaveScenario browser full_home)) =
     \<lparr>scenario_id = js ''id-1'', name = js ''My plan'',
      createdAt = js ''2023-11-14T22:13:20.000Z'', inputs = defaultInputs\<rparr>
     # map saved [0..<9] \<and>
   length (scenarios (fst (handleSaveScenario browser full_home))) = 10 \<and>
   distinct (map scenario_id (scenarios (fst (handleSaveScenario browser full_home)))) \<and>
   localStorage (storage_write_effect browser (fst (handleSaveScenario browser full_home)))
       (js ''scenarios_guest'') =
     Some (JSON_stringify browser (scenarios (fst (handleSaveScenario browser full_home)))) \<and>
   window plain_browser \<and> prompt plain_browser = Some (js ''My plan'') \<and>
   scenario_id (hd (scenarios (fst (handleSaveScenario plain_browser full_home)))) =
     js ''1700000000000''"
proof -
  let ?id = "case randomUUID browser of Some u \<Rightarrow> u | None \<Rightarrow> Date_now browser"
  let ?new = "\<lparr>scenario_id = ?id, name = trim (js ''My plan''),
      createdAt = toISOString browser, inputs = Home.inputs full_home\<rparr>"
  let ?after = "fst (handleSaveScenario browser full_home)"
  have k: "storageKey full_home = js ''scenarios_guest''"
    by (simp add: storageKey_def full_home_def guest_home_def del: js_simps)
  have v: "randomUUID browser = Some (js ''id-1'')" "randomUUID plain_browser = None"
    "Date_now plain_browser = js ''1700000000000''"
    "toISOString browser = js ''2023-11-14T22:13:20.000Z''"
    "Home.inputs full_home = defaultInputs"
    by (simp_all add: browser_def plain_browser_def full_home_def guest_home_def del: js_simps)
  have old: "scenarios full_home = map saved [0..<10]" "length (scenarios full_home) = 10"
    by (simp_all add: full_home_def)
  have ids: "?id \<notin> set (take 9 (map scenario_id (scenarios full_home))) \<and>
      distinct (take 9 (map scenario_id (scenarios full_home)))"
    by (simp add: full_home_def saved_def browser_def upt_rec)
  have h: "\<not> isAuthenticated full_home \<and> storageReady full_home \<and> window browser \<and>
      prompt browser = Some (js ''My plan'') \<and> trim (js ''My plan'') \<noteq> []"
    and h': "\<not> isAuthenticated full_home \<and> storageReady full_home \<and> window plain_browser \<and>
      prompt plain_browser = Some (js ''My plan'') \<and> trim (js ''My plan'') \<noteq> []"
    using guest_examples My_plan_nonempty by (simp_all add: trim_My_plan del: js_simps)
  from guest_save_prepends_and_persists [of full_home browser "js ''My plan''"] h
  have r: "scenarios ?after = take 10 (?new # scenarios full_home)"
    and l: "length (scenarios ?after) = min 10 (Suc (length (scenarios full_home)))"
    and d: "distinct (map scenario_id (scenarios ?after)) \<longleftrightarrow>
        ?id \<notin> set (take 9 (map scenario_id (scenarios full_home))) \<and>
        distinct (take 9 (map scenario_id (scenarios full_home)))"
    and w: "localStorage (storage_write_effect browser ?after) (storageKey full_home) =
        Some (JSON_stringify browser (scenarios ?after))"
    by blast+
  from guest_save_prepends_and_persists [of full_home plain_browser "js ''My plan''"] h'
  have p: "scenario_id (hd (scenarios (fst (handleSaveScenario plain_browser full_home)))) =
      (case randomUUID plain_browser of Some u \<Rightarrow> u | None \<Rightarrow> Date_now plain_browser)"
    by blast
  have "take 10 (?new # scenarios full_home) = ?new # map saved [0..<9]"
    unfolding old by (simp add: take_Cons' take_map)
  with r have r': "scenarios ?after =
     \<lparr>scenario_id = js ''id-1'', name = js ''My plan'',
      createdAt = js ''2023-11-14T22:13:20.000Z'', inputs = defaultInputs\<rparr>
     # map saved [0..<9]"
    by (simp add: v trim_My_plan del: js_simps)
  from l have l': "length (scenarios ?after) = 10"
    by (simp add: old)
  from d ids have d': "distinct (map scenario_id (scenarios ?after))"
    by blast
  from p have p': "scenario_id (hd (scenarios (fst (handleSaveScenario plain_browser full_home)))) =
      js ''1700000000000''"
    by (simp add: v del: js_simps)
  from w have w': "localStorage (storage_write_effect browser ?after) (js ''scenarios_guest'') =
        Some (JSON_stringify browser (scenarios ?after))"
    unfolding k .
  from h h' old(2) r' l' d' w' p' show ?thesis
    by blast
qed

theorem fresh_id_counterexample:
  "\<not> isAuthenticated guest_home \<and> storageReady guest_home \<and> window plain_browser \<and>
   prompt plain_browser = Some (js ''My plan'') \<and> randomUUID plain_browser = None \<and>
   map scenario_id
     (scenarios (fst (handleSaveScenario plain_browser
        (fst (handleSaveScenario plain_browser guest_home))))) =
     [js ''1700000000000'', js ''1700000000000''] \<and>
   \<not> distinct (map scenario_id
     (scenarios (fst (handleSaveScenario plain_browser
        (fst (handleSaveScenario plain_browser guest_home))))))"
proof -
  let ?new = "\<lparr>scenario_id = js ''1700000000000'', name = js ''My plan'',
      createdAt = js ''2023-11-14T22:13:20.000Z'', inputs = defaultInputs\<rparr>"
  have g: "\<not> isAuthenticated guest_home" "storageReady guest_home" "window plain_browser"
    "prompt plain_browser = Some (js ''My plan'')" "trim (js ''My plan'') \<noteq> []"
    using guest_examples isAuthenticated_examples(1) My_plan_nonempty
    by (simp_all add: trim_My_plan del: js_simps)
  have v: "new_id plain_browser = js ''1700000000000''"
    "toISOString plain_browser = js ''2023-11-14T22:13:20.000Z''"
    "randomUUID plain_browser = None"
    "Home.inputs guest_home = defaultInputs" "scenarios guest_home = []"
    by (simp_all add: new_id_def plain_browser_def browser_def guest_home_def del: js_simps)
  have first: "handleSaveScenario plain_browser guest_home =
      (guest_home\<lparr>scenarios := [?new]\<rparr>, None)"
    using guest_save [OF g] by (simp add: v trim_My_plan del: js_simps)
  have g2: "\<not> isAuthenticated (guest_home\<lparr>scenarios := [?new]\<rparr>)"
    "storageReady (guest_home\<lparr>scenarios := [?new]\<rparr>)"
    using g by simp_all
  have second: "handleSaveScenario plain_browser (guest_home\<lparr>scenarios := [?new]\<rparr>) =
      (guest_home\<lparr>scenarios := [?new, ?new]\<rparr>, None)"
    using guest_save [OF g2 g(3) g(4) g(5)] by (simp add: v trim_My_plan del: js_simps)
  show ?thesis
    using g v unfolding first second fst_conv by (simp del: js_simps)
qed

subsection \<open>The length of stored names\<close>

lemma trim_replicate_a: "trim (replicate n 0x61) = replicate n 0x61"
proof -
  have "dropWhile isWhiteSpace (replicate n 0x61) = replicate n 0x61"
    by (cases n) (simp_all add: isWhiteSpace_def)
  then show ?thesis
    by (simp add: trim_def)
qed

text \<open>The route keeps at most 80 code units of a name, and never an empty one.\<close>

lemma POST_created_name:
  assumes "POST uid body fresh_id now table = (table', created r)"
  shows "row_name r \<noteq> [] \<and> length (row_name r) \<le> 80 \<and> table' = table @ [r]"
  using assms
  by (auto simp: POST_def Let_def split: if_splits option.splits json.splits)

text \<open>
  Claim C7. In guest mode the handler rejects blank names, but it stores the trimmed
  name whole, whatever its length: a name of 81 code units is stored and persisted with
  all 81, while the route \<open>POST /api/scenarios\<close> keeps the first 80 only.
\<close>

theorem guest_save_keeps_whole_name:
  "\<not> isAuthenticated st \<and> storageReady st \<and> window e \<and> prompt e = Some p \<longrightarrow>
     (trim p = [] \<longrightarrow> handleSaveScenario e st = (st, None)) \<and>
     (trim p \<noteq> [] \<longrightarrow>
        map name (scenarios (fst (handleSaveScenario e st))) =
          take 10 (trim p # map name (scenarios st)) \<and>
        localStorage (storage_write_effect e (fst (handleSaveScenario e st))) (storageKey st) =
          Some (JSON_stringify e (scenarios (fst (handleSaveScenario e st)))))"
proof (intro impI conjI)
  assume a: "\<not> isAuthenticated st \<and> storageReady st \<and> window e \<and> prompt e = Some p"
    and "trim p = []"
  then show "handleSaveScenario e st = (st, None)"
    by (simp add: handleSaveScenario_def Let_def)
next
  assume a: "\<not> isAuthenticated st \<and> storageReady st \<and> window e \<and> prompt e = Some p"
    and p: "trim p \<noteq> []"
  let ?new = "\<lparr>scenario_id = new_id e, name = trim p, createdAt = toISOString e,
      inputs = Home.inputs st\<rparr>"
  let ?st = "st\<lparr>scenarios := take 10 (?new # scenarios st)\<rparr>"
  from a p have save: "handleSaveScenario e st = (?st, None)"
    by (intro guest_save) simp_all
  from a have wr: "storage_write_effect e ?st =
      ?st\<lparr>localStorage := (localStorage ?st)(storageKey ?st \<mapsto> JSON_stringify e (scenarios ?st))\<rparr>"
    by (intro storage_write_guest) simp_all
  show "map name (scenarios (fst (handleSaveScenario e st))) =
      take 10 (trim p # map name (scenarios st))"
    unfolding save by (simp add: take_map)
  show "localStorage (storage_write_effect e (fst (handleSaveScenario e st))) (storageKey st) =
      Some (JSON_stringify e (scenarios (fst (handleSaveScenario e st))))"
    unfolding save fst_conv wr by simp
qed

theorem guest_save_keeps_whole_name_witness:
  "\<not> isAuthenticated guest_home \<and> storageReady guest_home \<and>
   window (browser\<lparr>prompt := Some (replicate 81 0x61)\<rparr>) \<and>
   trim (replicate 81 0x61) \<noteq> [] \<and>
   map (\<lambda>s. length (name s))
     (scenarios (fst (handleSaveScenario (browser\<lparr>prompt := Some (replicate 81 0x61)\<rparr>) guest_home)))
     = [81] \<and>
   localStorage
     (storage_write_effect (browser\<lparr>prompt := Some (replicate 81 0x61)\<rparr>)
        (fst (handleSaveScenario (browser\<lparr>prompt := Some (replicate 81 0x61)\<rparr>) guest_home)))
     (js ''scenarios_guest'') =
   Some (JSON_stringify browser
     (scenarios (fst (handleSaveScenario (browser\<lparr>prompt := Some (replicate 81 0x61)\<rparr>) guest_home))))"
proof -
  let ?e = "browser\<lparr>prompt := Some (replicate 81 0x61)\<rparr>"
  have h: "\<not> isAuthenticated guest_home \<and> storageReady guest_home \<and> window ?e \<and>
      prompt ?e = Some (replicate 81 0x61)"
    using isAuthenticated_examples(1) by (simp add: guest_home_def browser_def)
  have t: "trim (replicate 81 0x61) \<noteq> []"
    unfolding trim_replicate_a by simp
  have k: "storageKey guest_home = js ''scenarios_guest''"
    by (simp add: storageKey_def guest_home_def del: js_simps)
  have j: "JSON_stringify ?e = JSON_stringify browser" "scenarios guest_home = []"
    by (simp_all add: guest_home_def)
  from guest_save_keeps_whole_name [of guest_home ?e "replicate 81 0x61"] h t
  have n: "map name (scenarios (fst (handleSaveScenario ?e guest_home))) =
      take 10 (trim (replicate 81 0x61) # map name (scenarios guest_home))"
    and w: "localStorage (storage_write_effect ?e (fst (handleSaveScenario ?e guest_home)))
      (storageKey guest_home) =
      Some (JSON_stringify ?e (scenarios (fst (handleSaveScenario ?e guest_home))))"
    by blast+
  have "map (\<lambda>s. length (name s)) (scenarios (fst (handleSaveScenario ?e guest_home))) =
      map length (map name (scenarios (fst (handleSaveScenario ?e guest_home))))"
    by simp
  also have "\<dots> = [81]"
    unfolding n trim_replicate_a j by simp
  finally show ?thesis
    using h t w unfolding k j by simp
qed

end
